theory Spec2Isabelle
  imports Main
begin

section \<open>Python strings and dynamically typed values\<close>

text \<open>
  A Python \<open>str\<close> is modelled as a \<open>string\<close>; a \<open>char\<close> stands for a code point
  below 256, so \<open>length\<close> is Python's \<open>len\<close> on such text. \<open>isspace\<close> is
  \<open>str.isspace\<close> on one code point of that range: TAB, LF, VT, FF, CR, the separators
  0x1C--0x1F, the blank, NEL (0x85) and the no-break space (0xA0).
\<close>

definition isspace :: "char \<Rightarrow> bool" where
  "isspace c =
     (let n = (of_char c :: nat)
      in (9 \<le> n \<and> n \<le> 13) \<or> (28 \<le> n \<and> n \<le> 32) \<or> n = 133 \<or> n = 160)"

text \<open>\<open>s.strip()\<close>: leading and trailing whitespace removed.\<close>

definition str_strip :: "string \<Rightarrow> string" where
  "str_strip s = rev (dropWhile isspace (rev (dropWhile isspace s)))"

text \<open>\<open>s.startswith(p)\<close>.\<close>

definition str_startswith :: "string \<Rightarrow> string \<Rightarrow> bool" where
  "str_startswith s p = (take (length p) s = p)"

text \<open>
  \<open>s.split()\<close> with no separator: the maximal runs of non-whitespace characters, in
  order. \<open>split_from w s\<close> scans \<open>s\<close> with \<open>w\<close> the characters of the token read so
  far; a whitespace character closes a non-empty token and is dropped otherwise.
\<close>

fun split_from :: "string \<Rightarrow> string \<Rightarrow> string list" where
  "split_from w [] = (if w = [] then [] else [w])"
| "split_from w (c # cs) =
     (if isspace c then (if w = [] then split_from [] cs else w # split_from [] cs)
      else split_from (w @ [c]) cs)"

definition str_split :: "string \<Rightarrow> string list" where
  "str_split s = split_from [] s"

text \<open>Decimal rendering of an integer, as \<open>str(n)\<close> and an f-string do.\<close>

fun show_nat :: "nat \<Rightarrow> string" where
  "show_nat n =
     (if n < 10 then [char_of (48 + n)]
      else show_nat (n div 10) @ [char_of (48 + n mod 10)])"

declare show_nat.simps [simp del]

definition show_int :: "int \<Rightarrow> string" where
  "show_int i = (if i < 0 then CHR ''-'' # show_nat (nat (- i)) else show_nat (nat i))"

text \<open>
  The values a tool call's JSON arguments carry: \<open>null\<close>, booleans, integers and strings.
  The handlers are not statically typed, so each parameter is such a value.
\<close>

datatype pyval = PNone | PBool bool | PInt int | PStr string

text \<open>Truth value of a value in a condition (\<open>if tag:\<close>).\<close>

fun truthy :: "pyval \<Rightarrow> bool" where
  "truthy PNone = False"
| "truthy (PBool b) = b"
| "truthy (PInt i) = (i \<noteq> 0)"
| "truthy (PStr s) = (s \<noteq> [])"

text \<open>\<open>str(v)\<close>, which an f-string applies to an interpolated value.\<close>

fun py_str :: "pyval \<Rightarrow> string" where
  "py_str PNone = ''None''"
| "py_str (PBool b) = (if b then ''True'' else ''False'')"
| "py_str (PInt i) = show_int i"
| "py_str (PStr s) = s"

text \<open>
  Exceptions are values. Every exception of the model is an instance of Python's
  \<open>Exception\<close>; \<open>LibraryError\<close> stands for whatever an external library raises (a
  transport failure, a bad HTTP status, a decoding error). \<open>str_exn\<close> is \<open>str(e)\<close>.
\<close>

datatype exn =
    Exception string
  | ValueError string
  | TypeError string
  | LibraryError string

fun str_exn :: "exn \<Rightarrow> string" where
  "str_exn (Exception m) = m"
| "str_exn (ValueError m) = m"
| "str_exn (TypeError m) = m"
| "str_exn (LibraryError m) = m"

text \<open>
  \<open>xs[:limit]\<close>. An integer bound counts from the end when negative; a boolean is the
  integer 0 or 1; \<open>None\<close> keeps the whole list; a string is not an index.
\<close>

definition slice_int :: "int \<Rightarrow> 'a list \<Rightarrow> 'a list" where
  "slice_int n xs = (if 0 \<le> n then take (nat n) xs else take (length xs - nat (- n)) xs)"

fun slice_to :: "pyval \<Rightarrow> 'a list \<Rightarrow> exn + 'a list" where
  "slice_to (PInt n) xs = Inr (slice_int n xs)"
| "slice_to (PBool b) xs = Inr (slice_int (if b then 1 else 0) xs)"
| "slice_to PNone xs = Inr xs"
| "slice_to (PStr s) xs =
     Inl (TypeError ''slice indices must be integers or None or have an __index__ method'')"

section \<open>The parsed document\<close>

text \<open>
  The tree that the HTML parser builds. A \<open>Tag\<close> has a name, its attribute dictionary
  (keys distinct) and its children; a \<open>NavigableString\<close> is a piece of text; \<open>Comment\<close>
  stands for the string nodes that text extraction leaves out (comments, declarations,
  doctypes). The document itself is a \<open>Tag\<close> whose children are the top-level nodes.
\<close>

datatype node =
    Tag string "(string \<times> string) list" "node list"
  | NavigableString string
  | Comment string

text \<open>\<open>tag.get(key)\<close>: the attribute's value, if the tag has it.\<close>

fun tag_get :: "node \<Rightarrow> string \<Rightarrow> string option" where
  "tag_get (Tag n a cs) k = map_of a k"
| "tag_get (NavigableString s) k = None"
| "tag_get (Comment s) k = None"

text \<open>\<open>node.get_text()\<close>: the text pieces below the node, concatenated in document order.\<close>

fun get_text :: "node \<Rightarrow> string" where
  "get_text (Tag n a cs) = concat (map get_text cs)"
| "get_text (NavigableString s) = s"
| "get_text (Comment s) = []"

text \<open>All nodes strictly below a node, in document order (a parent before its children).\<close>

fun descendants :: "node \<Rightarrow> node list" where
  "descendants (Tag n a cs) = concat (map (\<lambda>c. c # descendants c) cs)"
| "descendants (NavigableString s) = []"
| "descendants (Comment s) = []"

text \<open>
  A node matches a tag name and an attribute filter when it is a tag of that name and
  each attribute of the filter has exactly the given value.
\<close>

fun matches :: "string \<Rightarrow> (string \<times> string) list \<Rightarrow> node \<Rightarrow> bool" where
  "matches name flt (Tag n a cs) = (n = name \<and> list_all (\<lambda>(k, v). map_of a k = Some v) flt)"
| "matches name flt (NavigableString s) = False"
| "matches name flt (Comment s) = False"

text \<open>
  \<open>node.find_all(name, attrs)\<close>, and \<open>node.find(name, attrs)\<close>, which gives the
  first match or \<open>None\<close>. A tag that was found counts as true in a condition whatever
  its contents, so the source's tests \<open>if title\<close>, \<open>if not article_content\<close> and
  \<open>find('h3') or find('h2')\<close> are tests for \<open>None\<close>.
\<close>

definition find_all :: "string \<Rightarrow> (string \<times> string) list \<Rightarrow> node \<Rightarrow> node list" where
  "find_all name flt nd = filter (matches name flt) (descendants nd)"

definition find_first :: "string \<Rightarrow> (string \<times> string) list \<Rightarrow> node \<Rightarrow> node option" where
  "find_first name flt nd = (case find_all name flt nd of [] \<Rightarrow> None | x # xs \<Rightarrow> Some x)"

section \<open>The external collaborators\<close>

text \<open>
  What the server calls and does not implement is a parameter of the model:
  \<^item> \<open>session_get url params\<close>: the pooled client's GET of the search operation; it raises
    or gives a response, whose status is read before its body is decoded;
  \<^item> \<open>httpx_get url\<close>: the GET of the convert and info operations together with
    \<open>raise_for_status\<close> and the reading of the body: it raises or gives the body text;
  \<^item> \<open>html_parser\<close>: the HTML parser;
  \<^item> \<open>node_str\<close>: \<open>str(node)\<close>, the node written back as markup;
  \<^item> \<open>md_convert\<close>: the markdown converter as the server configures it;
  \<^item> \<open>json_dumps\<close>: \<open>json.dumps(v, indent=2)\<close>.
\<close>

datatype json =
    JNull
  | JBool bool
  | JInt int
  | JString string
  | JArray "json list"
  | JObject "(string \<times> json) list"

record response =
  status :: int
  body :: "exn + string"

record libs =
  session_get :: "string \<Rightarrow> (string \<times> pyval) list \<Rightarrow> exn + response"
  httpx_get :: "pyval \<Rightarrow> exn + string"
  html_parser :: "string \<Rightarrow> node"
  node_str :: "node \<Rightarrow> string"
  md_convert :: "string \<Rightarrow> string"
  json_dumps :: "json \<Rightarrow> string"

text \<open>A text segment of a tool response: its \<open>type\<close> and its \<open>text\<close>.\<close>

datatype TextContent = TextContent string string

fun content_text :: "TextContent \<Rightarrow> string" where
  "content_text (TextContent ty tx) = tx"

text \<open>A value as JSON (the \<open>url\<close> that the info record echoes).\<close>

fun json_of :: "pyval \<Rightarrow> json" where
  "json_of PNone = JNull"
| "json_of (PBool b) = JBool b"
| "json_of (PInt i) = JInt i"
| "json_of (PStr s) = JString s"

abbreviation NL :: char where
  "NL \<equiv> CHR 0x0A"

section \<open>The search operation\<close>

record article_summary =
  summary_title :: string
  summary_url :: string
  summary_author :: string
  summary_snippet :: string

definition summary_json :: "article_summary \<Rightarrow> json" where
  "summary_json a =
     JObject [(''title'', JString (summary_title a)), (''url'', JString (summary_url a)),
              (''author'', JString (summary_author a)), (''snippet'', JString (summary_snippet a))]"

text \<open>
  The body of the loop over the result containers: the summary that one container adds
  to \<open>articles\<close>, or \<open>None\<close> when it has no heading or no link and adds nothing. No
  statement of the body raises on a tree of this model, so the loop's handler that logs
  and skips an element is never entered.
\<close>

definition parse_search_result :: "node \<Rightarrow> article_summary option" where
  "parse_search_result element =
     (let title_elem = (case find_first ''h3'' [] element of
                          Some t \<Rightarrow> Some t
                        | None \<Rightarrow> find_first ''h2'' [] element);
          author_elem = find_first ''a'' [(''data-testid'', ''authorName'')] element;
          url_elem = find_first ''a'' [] element
      in case title_elem of
           None \<Rightarrow> None
         | Some t \<Rightarrow>
            (case url_elem of
               None \<Rightarrow> None
             | Some u \<Rightarrow>
                let title = str_strip (get_text t);
                    href = (case tag_get u ''href'' of Some h \<Rightarrow> h | None \<Rightarrow> []);
                    url = (if str_startswith href ''/'' then ''https://medium.com'' @ href
                           else href);
                    author = (case author_elem of
                                Some a \<Rightarrow> str_strip (get_text a)
                              | None \<Rightarrow> ''Unknown'')
                in Some \<lparr>summary_title = title, summary_url = url, summary_author = author,
                      summary_snippet =
                        (if length title > 100 then take 100 title @ ''...'' else title)\<rparr>))"

text \<open>The loop: \<open>articles\<close> grows by one summary for each element that has one.\<close>

fun collect_articles :: "node list \<Rightarrow> article_summary list \<Rightarrow> article_summary list" where
  "collect_articles [] articles = articles"
| "collect_articles (element # rest) articles =
     (case parse_search_result element of
        Some a \<Rightarrow> collect_articles rest (articles @ [a])
      | None \<Rightarrow> collect_articles rest articles)"

text \<open>The result containers of a results page, in document order.\<close>

definition article_elements :: "node \<Rightarrow> node list" where
  "article_elements soup = find_all ''div'' [(''data-test-id'', ''postPreview'')] soup"

text \<open>
  The search operation up to its list \<open>articles\<close>, and the handler, which returns the
  list as one JSON text segment. The outer handler of the source logs and raises again,
  so an error passes through unchanged.
\<close>

definition search_articles :: "libs \<Rightarrow> pyval \<Rightarrow> pyval \<Rightarrow> pyval \<Rightarrow> exn + article_summary list" where
  "search_articles L query tag limit =
     (let search_url = ''https://medium.com/search/posts'';
          params = [(''q'', query)] @ (if truthy tag then [(''tag'', tag)] else [])
      in case session_get L search_url params of
           Inl e \<Rightarrow> Inl e
         | Inr resp \<Rightarrow>
            if status resp \<noteq> 200
            then Inl (Exception (''Search failed: '' @ show_int (status resp)))
            else (case body resp of
                    Inl e \<Rightarrow> Inl e
                  | Inr html \<Rightarrow>
                     (case slice_to limit (article_elements (html_parser L html)) of
                        Inl e \<Rightarrow> Inl e
                      | Inr elements \<Rightarrow> Inr (collect_articles elements []))))"

definition search_medium_articles :: "libs \<Rightarrow> pyval \<Rightarrow> pyval \<Rightarrow> pyval \<Rightarrow> exn + TextContent list" where
  "search_medium_articles L query tag limit =
     (case search_articles L query tag limit of
        Inl e \<Rightarrow> Inl e
      | Inr articles \<Rightarrow>
         Inr [TextContent ''text'' (json_dumps L (JArray (map summary_json articles)))])"

section \<open>The convert operation\<close>

definition convert_medium_to_markdown ::
  "libs \<Rightarrow> pyval \<Rightarrow> pyval \<Rightarrow> pyval \<Rightarrow> exn + TextContent list" where
  "convert_medium_to_markdown L url include_images include_code =
     (case httpx_get L url of
        Inl e \<Rightarrow> Inl e
      | Inr html \<Rightarrow>
         let soup = html_parser L html
         in (case find_first ''article'' [] soup of
               None \<Rightarrow> Inl (Exception ''Could not find article content'')
             | Some article_content \<Rightarrow>
                let title_text = (case find_first ''h1'' [] soup of
                                    Some t \<Rightarrow> str_strip (get_text t)
                                  | None \<Rightarrow> ''Untitled'');
                    markdown_content = md_convert L (node_str L article_content);
                    result = ''# '' @ title_text @ [NL, NL]
                             @ ''**Source:** '' @ py_str url @ [NL, NL]
                             @ ''---'' @ [NL, NL]
                             @ markdown_content
                in Inr [TextContent ''text'' result]))"

section \<open>The info operation\<close>

definition estimate_word_count :: "libs \<Rightarrow> string \<Rightarrow> nat" where
  "estimate_word_count L html =
     (let soup = html_parser L html;
          text = get_text soup;
          words = str_split text
      in length words)"

text \<open>The dictionary \<open>info\<close> of the handler, in the order of its keys.\<close>

definition article_info :: "libs \<Rightarrow> pyval \<Rightarrow> string \<Rightarrow> (string \<times> json) list" where
  "article_info L url html =
     (let soup = html_parser L html;
          title = find_first ''h1'' [] soup;
          author = find_first ''a'' [(''data-testid'', ''authorName'')] soup;
          reading_time = find_first ''span'' [(''data-testid'', ''readingTime'')] soup;
          publish_date = find_first ''time'' [] soup
      in [(''title'', JString (case title of Some t \<Rightarrow> str_strip (get_text t)
                                           | None \<Rightarrow> ''Unknown'')),
          (''author'', JString (case author of Some a \<Rightarrow> str_strip (get_text a)
                                             | None \<Rightarrow> ''Unknown'')),
          (''reading_time'', JString (case reading_time of Some r \<Rightarrow> str_strip (get_text r)
                                                         | None \<Rightarrow> ''Unknown'')),
          (''publish_date'', (case publish_date of
                                Some p \<Rightarrow> (case tag_get p ''datetime'' of
                                             Some d \<Rightarrow> JString d
                                           | None \<Rightarrow> JNull)
                              | None \<Rightarrow> JNull)),
          (''url'', json_of url),
          (''word_count'', JInt (int (estimate_word_count L html)))])"

definition get_medium_article_info :: "libs \<Rightarrow> pyval \<Rightarrow> exn + TextContent list" where
  "get_medium_article_info L url =
     (case httpx_get L url of
        Inl e \<Rightarrow> Inl e
      | Inr html \<Rightarrow>
         Inr [TextContent ''text'' (json_dumps L (JObject (article_info L url html)))])"

section \<open>The dispatch of a tool call\<close>

text \<open>
  A handler is called with the argument dictionary as keyword arguments. The call raises
  a \<open>TypeError\<close> at the first key, in the dictionary's order, that names no parameter
  (or names \<open>self\<close>, which the bound method has already), and otherwise when the
  required parameter has no value. \<open>fname\<close> is the handler's qualified name, which the
  message starts with.
\<close>

definition bind_kwargs :: "string \<Rightarrow> string \<Rightarrow> string list \<Rightarrow> (string \<times> pyval) list \<Rightarrow> exn option" where
  "bind_kwargs fname required optional args =
     (case filter (\<lambda>k. k \<notin> set (required # optional)) (map fst args) of
        k # ks \<Rightarrow>
          Some (TypeError (fname @ ''() got ''
                  @ (if k = ''self'' then ''multiple values for argument ''
                     else ''an unexpected keyword argument '')
                  @ [CHR 0x27] @ k @ [CHR 0x27]))
      | [] \<Rightarrow>
          (case map_of args required of
             None \<Rightarrow>
               Some (TypeError (fname @ ''() missing 1 required positional argument: ''
                       @ [CHR 0x27] @ required @ [CHR 0x27]))
           | Some v \<Rightarrow> None))"

text \<open>The value a parameter takes: the argument of that name, or the default.\<close>

definition kwarg :: "(string \<times> pyval) list \<Rightarrow> string \<Rightarrow> pyval \<Rightarrow> pyval" where
  "kwarg args k dflt = (case map_of args k of Some v \<Rightarrow> v | None \<Rightarrow> dflt)"

text \<open>
  The handler that a tool name selects, applied to the arguments; an unknown name raises
  inside the same guarded block.
\<close>

definition invoke_handler :: "libs \<Rightarrow> string \<Rightarrow> (string \<times> pyval) list \<Rightarrow> exn + TextContent list" where
  "invoke_handler L name args =
     (if name = ''search_medium_articles'' then
        (case bind_kwargs ''MediumScraperMCPServer._search_medium_articles''
                ''query'' [''tag'', ''limit''] args of
           Some e \<Rightarrow> Inl e
         | None \<Rightarrow>
             search_medium_articles L (kwarg args ''query'' PNone) (kwarg args ''tag'' PNone)
               (kwarg args ''limit'' (PInt 10)))
      else if name = ''convert_medium_to_markdown'' then
        (case bind_kwargs ''MediumScraperMCPServer._convert_medium_to_markdown''
                ''url'' [''include_images'', ''include_code''] args of
           Some e \<Rightarrow> Inl e
         | None \<Rightarrow>
             convert_medium_to_markdown L (kwarg args ''url'' PNone)
               (kwarg args ''include_images'' (PBool True))
               (kwarg args ''include_code'' (PBool True)))
      else if name = ''get_medium_article_info'' then
        (case bind_kwargs ''MediumScraperMCPServer._get_medium_article_info''
                ''url'' [] args of
           Some e \<Rightarrow> Inl e
         | None \<Rightarrow> get_medium_article_info L (kwarg args ''url'' PNone))
      else Inl (ValueError (''Unknown tool: '' @ name)))"

text \<open>
  \<open>call_tool\<close>: \<open>arguments or {}\<close>, then the guarded block; whatever it raises is
  logged (not modelled) and returned as one text segment.
\<close>

definition call_tool :: "libs \<Rightarrow> string \<Rightarrow> (string \<times> pyval) list option \<Rightarrow> TextContent list" where
  "call_tool L name arguments =
     (let args = (case arguments of None \<Rightarrow> [] | Some a \<Rightarrow> a)
      in case invoke_handler L name args of
           Inr contents \<Rightarrow> contents
         | Inl e \<Rightarrow> [TextContent ''text'' (''Error: '' @ str_exn e)])"

section \<open>The command line\<close>

text \<open>
  The namespace that the argument parser returns: \<open>--stdio\<close> and \<open>--verbose\<close> are
  flags, \<open>--port\<close> takes an integer and is \<open>None\<close> when not given.
\<close>

record namespace =
  stdio :: bool
  port :: "int option"
  verbose :: bool

text \<open>
  What \<open>main\<close> does: whether it set logging to debug level, the lines it printed to the
  error stream, and whether it left through \<open>sys.exit\<close> or ran the stdio server.
\<close>

datatype ending = SystemExit int | ServerRun

record cli_outcome =
  debug_logging :: bool
  stderr_lines :: "string list"
  ending :: ending

definition main :: "namespace \<Rightarrow> cli_outcome" where
  "main args =
     (if (case port args of None \<Rightarrow> False | Some p \<Rightarrow> p \<noteq> 0)
      then \<lparr>debug_logging = verbose args,
            stderr_lines = [''HTTP mode not yet implemented''],
            ending = SystemExit 1\<rparr>
      else \<lparr>debug_logging = verbose args, stderr_lines = [], ending = ServerRun\<rparr>)"

section \<open>The specification's word count\<close>

text \<open>
  The count of whitespace-delimited tokens, as the specification words it and without
  reference to the splitting function: a token starts at each character that is not
  whitespace and that stands first in the text or right after a whitespace character.
\<close>

definition token_count :: "string \<Rightarrow> nat" where
  "token_count s =
     length (filter (\<lambda>(p, c). isspace p \<and> \<not> isspace c) (zip (CHR '' '' # s) s))"

section \<open>Pages and collaborators for concrete runs\<close>

text \<open>
  Collaborators under which every request succeeds with status 200, the parser gives the
  tree \<open>doc\<close> and the markdown converter gives \<open>rendered\<close>.
\<close>

definition stub_libs :: "node \<Rightarrow> string \<Rightarrow> libs" where
  "stub_libs doc rendered =
     \<lparr>session_get = (\<lambda>u ps. Inr \<lparr>status = 200, body = Inr []\<rparr>),
      httpx_get = (\<lambda>u. Inr []),
      html_parser = (\<lambda>h. doc),
      node_str = (\<lambda>n. []),
      md_convert = (\<lambda>s. rendered),
      json_dumps = (\<lambda>j. [])\<rparr>"

text \<open>The page \<open><article><h1>T</h1><p>hello world</p></article>\<close>.\<close>

definition article_page :: node where
  "article_page =
     Tag ''[document]'' []
       [Tag ''article'' []
          [Tag ''h1'' [] [NavigableString ''T''],
           Tag ''p'' [] [NavigableString ''hello world'']]]"

text \<open>The page \<open><article><p>hello world</p></article>\<close>, with no \<open>h1\<close>.\<close>

definition untitled_page :: node where
  "untitled_page =
     Tag ''[document]'' []
       [Tag ''article'' [] [Tag ''p'' [] [NavigableString ''hello world'']]]"

text \<open>The page \<open><p>hello world</p>\<close>, with no \<open>article\<close>.\<close>

definition plain_page :: node where
  "plain_page = Tag ''[document]'' [] [Tag ''p'' [] [NavigableString ''hello world'']]"

text \<open>A document with no node at all.\<close>

definition empty_page :: node where
  "empty_page = Tag ''[document]'' [] []"

text \<open>
  A result container with a heading and a link, and one with a link only.
\<close>

definition post_preview :: "string \<Rightarrow> string \<Rightarrow> node" where
  "post_preview heading href =
     Tag ''div'' [(''data-test-id'', ''postPreview'')]
       [Tag ''h3'' [] [NavigableString heading],
        Tag ''a'' [(''href'', href)] [NavigableString ''read'']]"

definition untitled_preview :: "string \<Rightarrow> node" where
  "untitled_preview href =
     Tag ''div'' [(''data-test-id'', ''postPreview'')]
       [Tag ''a'' [(''href'', href)] [NavigableString ''read'']]"

text \<open>Results pages with five containers: all complete, and the first without heading.\<close>

definition results_page :: node where
  "results_page =
     Tag ''[document]'' []
       [post_preview ''A'' ''/a'', post_preview ''B'' ''/b'', post_preview ''C'' ''/c'',
        post_preview ''D'' ''/d'', post_preview ''E'' ''/e'']"

definition gapped_results_page :: node where
  "gapped_results_page =
     Tag ''[document]'' []
       [untitled_preview ''/a'', post_preview ''B'' ''/b'', post_preview ''C'' ''/c'',
        post_preview ''D'' ''/d'', post_preview ''E'' ''/e'']"

text \<open>A results page whose only result links to another site.\<close>

definition external_results_page :: node where
  "external_results_page =
     Tag ''[document]'' [] [post_preview ''A'' ''https://example.com/a'']"

text \<open>A results page whose only result has a title of 101 characters.\<close>

definition long_title_page :: node where
  "long_title_page =
     Tag ''[document]'' [] [post_preview (replicate 101 (CHR ''x'')) ''/long'']"

text \<open>An article page with author and reading time and no \<open>time\<close> element.\<close>

definition undated_page :: node where
  "undated_page =
     Tag ''[document]'' []
       [Tag ''article'' []
          [Tag ''h1'' [] [NavigableString '' My Post ''],
           Tag ''a'' [(''data-testid'', ''authorName'')] [NavigableString ''Ann''],
           Tag ''span'' [(''data-testid'', ''readingTime'')] [NavigableString ''3 min read''],
           Tag ''p'' [] [NavigableString ''hello world'']]]"

text \<open>
  A markup writer and a small markdown converter for concrete runs, so that the body of
  a converted page comes from the page. \<open>write_markup\<close> writes a node as markup.
  \<open>markdown_of_markup\<close> reads markup from left to right: it starts a level-1 heading
  with \<open>#\<close> and a blank, ends a heading and a paragraph with a blank line, drops
  every other tag, copies the text, and drops the newlines at the end. \<open>markup_libs\<close>
  are the collaborators of \<open>stub_libs\<close> with these two in place of the constants.
\<close>

fun write_markup :: "node \<Rightarrow> string" where
  "write_markup (Tag n a cs) =
     ''<'' @ n @ concat (map (\<lambda>(k, v). '' '' @ k @ ''='' @ [CHR 0x22] @ v @ [CHR 0x22]) a) @ ''>''
     @ concat (map write_markup cs) @ ''</'' @ n @ ''>''"
| "write_markup (NavigableString s) = s"
| "write_markup (Comment s) = ''<!--'' @ s @ ''-->''"

definition tag_markdown :: "string \<Rightarrow> string" where
  "tag_markdown t =
     (let name = takeWhile (\<lambda>c. c \<noteq> CHR '' '') t
      in if name = ''h1'' then ''# ''
         else if name = ''/h1'' \<or> name = ''/p'' then [NL, NL]
         else [])"

fun markdown_scan :: "bool \<Rightarrow> string \<Rightarrow> string \<Rightarrow> string" where
  "markdown_scan in_tag t [] = []"
| "markdown_scan False t (c # cs) =
     (if c = CHR ''<'' then markdown_scan True [] cs else c # markdown_scan False [] cs)"
| "markdown_scan True t (c # cs) =
     (if c = CHR ''>'' then tag_markdown t @ markdown_scan False [] cs
      else markdown_scan True (t @ [c]) cs)"

definition markdown_of_markup :: "string \<Rightarrow> string" where
  "markdown_of_markup s = rev (dropWhile (\<lambda>c. c = NL) (rev (markdown_scan False [] s)))"

definition markup_libs :: "node \<Rightarrow> libs" where
  "markup_libs doc =
     \<lparr>session_get = (\<lambda>u ps. Inr \<lparr>status = 200, body = Inr []\<rparr>),
      httpx_get = (\<lambda>u. Inr []),
      html_parser = (\<lambda>h. doc),
      node_str = write_markup,
      md_convert = markdown_of_markup,
      json_dumps = (\<lambda>j. [])\<rparr>"

text \<open>
  The page \<open><h1>Site banner</h1><article><h1>T</h1><p>hello world</p></article>\<close>: an
  \<open>h1\<close> stands before the article container.
\<close>

definition banner_page :: node where
  "banner_page =
     Tag ''[document]'' []
       [Tag ''h1'' [] [NavigableString ''Site banner''],
        Tag ''article'' []
          [Tag ''h1'' [] [NavigableString ''T''],
           Tag ''p'' [] [NavigableString ''hello world'']]]"

section \<open>Whitespace splitting\<close>

lemma isspace_blank: "isspace (CHR '' '')"
  by (simp add: isspace_def)

lemma not_isspace_letter: "\<not> isspace (CHR ''a'')"
  by (simp add: isspace_def)

lemma starts_length_cong:
  "isspace p = isspace q \<Longrightarrow>
   length (filter (\<lambda>(p, c). isspace p \<and> \<not> isspace c) (zip (p # s) s)) =
   length (filter (\<lambda>(p, c). isspace p \<and> \<not> isspace c) (zip (q # s) s))"
  by (cases s) auto

lemma length_split_from:
  "length (split_from w s) =
     (if w = [] then length (filter (\<lambda>(p, c). isspace p \<and> \<not> isspace c) (zip (CHR '' '' # s) s))
      else Suc (length (filter (\<lambda>(p, c). isspace p \<and> \<not> isspace c) (zip (CHR ''a'' # s) s))))"
proof (induction s arbitrary: w)
  case Nil
  show ?case by simp
next
  case (Cons c cs)
  show ?case
  proof (cases "isspace c")
    case True
    then have e: "length (filter (\<lambda>(p, c). isspace p \<and> \<not> isspace c) (zip (c # cs) cs)) =
                  length (filter (\<lambda>(p, c). isspace p \<and> \<not> isspace c) (zip (CHR '' '' # cs) cs))"
      by (intro starts_length_cong) (simp add: isspace_blank)
    show ?thesis using True e by (simp add: Cons.IH isspace_blank not_isspace_letter)
  next
    case False
    then have e: "length (filter (\<lambda>(p, c). isspace p \<and> \<not> isspace c) (zip (c # cs) cs)) =
                  length (filter (\<lambda>(p, c). isspace p \<and> \<not> isspace c) (zip (CHR ''a'' # cs) cs))"
      by (intro starts_length_cong) (simp add: not_isspace_letter)
    show ?thesis using False e by (simp add: Cons.IH isspace_blank not_isspace_letter)
  qed
qed

lemma length_str_split: "length (str_split s) = token_count s"
  by (simp add: str_split_def token_count_def length_split_from)

text \<open>The tokens are the text without its whitespace, cut into non-empty pieces.\<close>

lemma concat_split_from:
  "concat (split_from w s) = w @ filter (\<lambda>c. \<not> isspace c) s"
  by (induction s arbitrary: w) auto

lemma split_from_tokens:
  "list_all (\<lambda>c. \<not> isspace c) w \<Longrightarrow> t \<in> set (split_from w s) \<Longrightarrow>
   t \<noteq> [] \<and> list_all (\<lambda>c. \<not> isspace c) t"
  by (induction w s rule: split_from.induct) (auto split: if_splits)

lemma str_split_tokens:
  "t \<in> set (str_split s) \<Longrightarrow> t \<noteq> [] \<and> list_all (\<lambda>c. \<not> isspace c) t"
  using split_from_tokens [of "[]" t s] by (simp add: str_split_def)

lemma concat_str_split: "concat (str_split s) = filter (\<lambda>c. \<not> isspace c) s"
  by (simp add: str_split_def concat_split_from)

section \<open>The search loop\<close>

lemma collect_articles_eq:
  "collect_articles es acc = acc @ List.map_filter parse_search_result es"
  by (induction es arbitrary: acc) (auto simp: List.map_filter_simps split: option.splits)

lemma in_set_map_filter:
  "y \<in> set (List.map_filter f xs) \<longleftrightarrow> (\<exists>x\<in>set xs. f x = Some y)"
  by (induction xs) (auto split: option.splits)

lemma length_map_filter_le: "length (List.map_filter f xs) \<le> length xs"
  by (induction xs) (auto split: option.splits)

lemma length_map_filter_all:
  "list_all (\<lambda>x. f x \<noteq> None) xs \<Longrightarrow> length (List.map_filter f xs) = length xs"
  by (induction xs) (auto split: option.splits)

lemma slice_to_subset: "slice_to lim xs = Inr ys \<Longrightarrow> set ys \<subseteq> set xs"
  by (cases lim) (auto simp: slice_int_def dest: in_set_takeD split: if_splits)

lemma parse_search_result_defined:
  "parse_search_result e \<noteq> None \<longleftrightarrow>
     (find_first ''h3'' [] e \<noteq> None \<or> find_first ''h2'' [] e \<noteq> None)
     \<and> find_first ''a'' [] e \<noteq> None"
  by (auto simp: parse_search_result_def Let_def split: option.splits)

lemma parse_search_result_snippet:
  "parse_search_result e = Some a \<Longrightarrow>
   summary_snippet a =
     (if length (summary_title a) \<le> 100 then summary_title a
      else take 100 (summary_title a) @ ''...'')"
  by (auto simp: parse_search_result_def Let_def split: option.splits)

lemma parse_search_result_url:
  "parse_search_result e = Some a \<Longrightarrow>
   \<exists>link. find_first ''a'' [] e = Some link \<and>
     summary_url a =
       (let href = (case tag_get link ''href'' of Some h \<Rightarrow> h | None \<Rightarrow> [])
        in if str_startswith href ''/'' then ''https://medium.com'' @ href else href)"
  by (auto simp: parse_search_result_def Let_def split: option.splits)

lemma search_articles_Inr:
  assumes "search_articles L q t lim = Inr articles"
  shows "\<exists>resp html elements.
           session_get L ''https://medium.com/search/posts''
             ([(''q'', q)] @ (if truthy t then [(''tag'', t)] else [])) = Inr resp
           \<and> status resp = 200 \<and> body resp = Inr html
           \<and> slice_to lim (article_elements (html_parser L html)) = Inr elements
           \<and> articles = List.map_filter parse_search_result elements"
  using assms
  by (simp add: search_articles_def Let_def collect_articles_eq
           split: sum.splits if_splits)

lemma search_articles_from_elements:
  assumes "search_articles L q t lim = Inr articles" and "a \<in> set articles"
  shows "\<exists>html e. e \<in> set (article_elements (html_parser L html))
                 \<and> parse_search_result e = Some a"
proof -
  obtain html elements
    where s: "slice_to lim (article_elements (html_parser L html)) = Inr elements"
      and a: "articles = List.map_filter parse_search_result elements"
    using search_articles_Inr [OF assms(1)] by blast
  from assms(2) a obtain e where e: "e \<in> set elements" "parse_search_result e = Some a"
    by (auto simp: in_set_map_filter)
  with slice_to_subset [OF s] show ?thesis by blast
qed

lemma search_articles_ok:
  assumes "session_get L ''https://medium.com/search/posts''
             ([(''q'', q)] @ (if truthy t then [(''tag'', t)] else [])) = Inr resp"
      and "status resp = 200" and "body resp = Inr html"
  shows "search_articles L q t (PInt n) =
           Inr (List.map_filter parse_search_result
                  (slice_int n (article_elements (html_parser L html))))"
  using assms by (simp add: search_articles_def Let_def collect_articles_eq)

lemmas page_defs =
  stub_libs_def article_page_def untitled_page_def plain_page_def empty_page_def
  post_preview_def untitled_preview_def results_page_def gapped_results_page_def
  external_results_page_def long_title_page_def undated_page_def

lemmas model_defs =
  search_articles_def search_medium_articles_def article_elements_def
  parse_search_result_def summary_json_def convert_medium_to_markdown_def
  estimate_word_count_def article_info_def get_medium_article_info_def
  call_tool_def invoke_handler_def bind_kwargs_def kwarg_def
  find_first_def find_all_def str_strip_def str_startswith_def str_split_def
  isspace_def slice_int_def token_count_def Let_def

lemmas markup_defs =
  markup_libs_def banner_page_def article_page_def markdown_of_markup_def tag_markdown_def

section \<open>The first match of a search in the tree\<close>

text \<open>
  Every node below a node is followed, in the list of descendants, by its own
  descendants. So the first match in a document is the first match below one of its
  nodes when nothing before that node matches and the node itself does not: the
  document's first \<open>h1\<close> is the article container's first \<open>h1\<close> when no \<open>h1\<close> stands
  before the container.
\<close>

lemma descendants_split:
  "x \<in> set (descendants nd) \<Longrightarrow>
   \<exists>pre post. descendants nd = pre @ x # descendants x @ post"
proof (induction nd rule: descendants.induct)
  case (1 n a cs)
  from "1.prems" obtain c where c: "c \<in> set cs" "x = c \<or> x \<in> set (descendants c)"
    by auto
  from c(1) obtain cs1 cs2 where cs: "cs = cs1 @ c # cs2"
    by (auto dest: split_list)
  let ?f = "\<lambda>c. c # descendants c"
  have d: "descendants (Tag n a cs) =
             concat (map ?f cs1) @ c # descendants c @ concat (map ?f cs2)"
    by (simp add: cs)
  show ?case
  proof (cases "x = c")
    case True
    with d show ?thesis by blast
  next
    case False
    with c(2) have "x \<in> set (descendants c)" by simp
    from "1.IH" [OF c(1) this] obtain p q
      where "descendants c = p @ x # descendants x @ q" by blast
    with d have "descendants (Tag n a cs) =
                   (concat (map ?f cs1) @ c # p) @ x # descendants x @ (q @ concat (map ?f cs2))"
      by simp
    then show ?thesis by blast
  qed
qed simp_all

lemma find_first_below:
  assumes "descendants soup = pre @ x # descendants x @ post"
      and "list_all (\<lambda>n. \<not> matches name flt n) pre"
      and "\<not> matches name flt x"
      and "find_first name flt x = Some t"
  shows "find_first name flt soup = Some t"
proof -
  have "filter (matches name flt) pre = []"
    using assms(2) by (induction pre) auto
  then show ?thesis
    using assms(1,3,4)
    by (auto simp: find_first_def find_all_def split: list.splits)
qed

section \<open>The convert operation: layout of the output\<close>

text \<open>
  C1, as the claim words it, fails: the heading is not taken from the article
  container. On a page with an \<open>h1\<close> before the container
  \<open><article><h1>T</h1><p>hello world</p></article>\<close> the output starts with the line
  \<open># Site banner\<close>, not with \<open># T\<close>.
\<close>

theorem convert_heading_counterexample:
  "find_first ''article'' [] (html_parser (markup_libs banner_page) []) =
     Some (Tag ''article'' []
             [Tag ''h1'' [] [NavigableString ''T''],
              Tag ''p'' [] [NavigableString ''hello world'']])
   \<and> convert_medium_to_markdown (markup_libs banner_page)
        (PStr ''https://medium.com/p'') (PBool True) (PBool True) =
      Inr [TextContent ''text''
             (''# Site banner'' @ [NL, NL] @ ''**Source:** https://medium.com/p'' @ [NL, NL]
              @ ''---'' @ [NL, NL] @ ''# T'' @ [NL, NL] @ ''hello world'')]
   \<and> \<not> str_startswith
          (''# Site banner'' @ [NL, NL] @ ''**Source:** https://medium.com/p'' @ [NL, NL]
           @ ''---'' @ [NL, NL] @ ''# T'' @ [NL, NL] @ ''hello world'')
          (''# T'' @ [NL])"
  by (simp add: model_defs markup_defs)

text \<open>
  C1, amended. A convert call on a fetched page that has an article container and an
  \<open>h1\<close> returns one text segment that starts with the heading line \<open># T\<close>, \<open>T\<close> the
  stripped text of the first \<open>h1\<close> of the whole document (the article container's
  only when no \<open>h1\<close> stands before it), goes on with the line \<open>**Source:** url\<close> for the
  requested URL and the separator \<open>---\<close>, and ends with what the markdown converter
  renders from the markup of the article container, in that order.
\<close>

theorem convert_output_layout:
  assumes "httpx_get L (PStr url) = Inr html"
      and "find_first ''article'' [] (html_parser L html) = Some article_content"
      and "find_first ''h1'' [] (html_parser L html) = Some title"
      and "md_convert L (node_str L article_content) = rendered"
  shows "convert_medium_to_markdown L (PStr url) include_images include_code =
           Inr [TextContent ''text''
                  (''# '' @ str_strip (get_text title) @ [NL, NL]
                   @ ''**Source:** '' @ url @ [NL, NL]
                   @ ''---'' @ [NL, NL]
                   @ rendered)]"
  using assms by (simp add: convert_medium_to_markdown_def)

theorem convert_output_layout_witness:
  "convert_medium_to_markdown (markup_libs article_page)
     (PStr ''https://medium.com/p'') (PBool True) (PBool True) =
   Inr [TextContent ''text''
          (''# T'' @ [NL, NL] @ ''**Source:** https://medium.com/p'' @ [NL, NL]
           @ ''---'' @ [NL, NL] @ ''# T'' @ [NL, NL] @ ''hello world'')]"
proof -
  let ?L = "markup_libs article_page"
  let ?article = "Tag ''article'' []
                    [Tag ''h1'' [] [NavigableString ''T''],
                     Tag ''p'' [] [NavigableString ''hello world'']]"
  have fetch: "httpx_get ?L (PStr ''https://medium.com/p'') = Inr []"
    by (simp add: markup_libs_def)
  have art: "find_first ''article'' [] (html_parser ?L []) = Some ?article"
    by (simp add: markup_defs find_first_def find_all_def)
  have h1: "find_first ''h1'' [] (html_parser ?L []) = Some (Tag ''h1'' [] [NavigableString ''T''])"
    by (simp add: markup_defs find_first_def find_all_def)
  have md: "md_convert ?L (node_str ?L ?article) = ''# T'' @ [NL, NL] @ ''hello world''"
    by (simp add: markup_defs)
  show ?thesis
    using convert_output_layout [OF fetch art h1 md, of "PBool True" "PBool True"]
    by (simp add: str_strip_def isspace_def)
qed

section \<open>The dispatch boundary\<close>

text \<open>
  C2. Whatever error the selected handler raises, \<open>call_tool\<close> returns normally, with
  the single text segment \<open>Error: <message>\<close>; a convert call on a fetched page without
  an article container returns \<open>Error: Could not find article content\<close>.
\<close>

theorem call_tool_reports_errors:
  "(invoke_handler L name (case arguments of None \<Rightarrow> [] | Some a \<Rightarrow> a) = Inl e \<longrightarrow>
      call_tool L name arguments = [TextContent ''text'' (''Error: '' @ str_exn e)])
   \<and> (httpx_get L url = Inr html \<and> find_first ''article'' [] (html_parser L html) = None \<longrightarrow>
      call_tool L ''convert_medium_to_markdown'' (Some [(''url'', url)]) =
        [TextContent ''text'' ''Error: Could not find article content''])"
  by (simp add: call_tool_def invoke_handler_def bind_kwargs_def kwarg_def
        convert_medium_to_markdown_def)

theorem call_tool_reports_errors_witness:
  "invoke_handler (stub_libs plain_page []) ''convert_medium_to_markdown''
     [(''url'', PStr ''https://medium.com/p'')] = Inl (Exception ''Could not find article content'')
   \<and> call_tool (stub_libs plain_page []) ''convert_medium_to_markdown''
        (Some [(''url'', PStr ''https://medium.com/p'')]) =
      [TextContent ''text'' ''Error: Could not find article content'']"
proof -
  let ?L = "stub_libs plain_page []"
  have raised: "invoke_handler ?L ''convert_medium_to_markdown''
                  (case Some [(''url'', PStr ''https://medium.com/p'')] of None \<Rightarrow> [] | Some a \<Rightarrow> a) =
                Inl (Exception ''Could not find article content'')"
    by (simp add: model_defs page_defs)
  have page: "httpx_get ?L (PStr ''https://medium.com/p'') = Inr []
              \<and> find_first ''article'' [] (html_parser ?L []) = None"
    by (simp add: page_defs find_first_def find_all_def)
  show ?thesis
    using raised page
      call_tool_reports_errors [of ?L "''convert_medium_to_markdown''"
        "Some [(''url'', PStr ''https://medium.com/p'')]"
        "Exception ''Could not find article content''" "PStr ''https://medium.com/p''" "[]"]
    by simp
qed


section \<open>The search operation: limit, URLs, snippets\<close>

text \<open>
  C3, as the claim words it, fails: a container without a heading is skipped, so five
  containers and \<open>limit = 3\<close> can give two summaries; and a negative limit cuts from the
  end of the list, so \<open>limit = -1\<close> gives four summaries of five containers.
\<close>

theorem search_limit_counterexample:
  "length (article_elements gapped_results_page) = 5
   \<and> search_articles (stub_libs gapped_results_page []) (PStr ''q'') PNone (PInt 3) =
       Inr [\<lparr>summary_title = ''B'', summary_url = ''https://medium.com/b'',
              summary_author = ''Unknown'', summary_snippet = ''B''\<rparr>,
            \<lparr>summary_title = ''C'', summary_url = ''https://medium.com/c'',
              summary_author = ''Unknown'', summary_snippet = ''C''\<rparr>]
   \<and> length (article_elements results_page) = 5
   \<and> (case search_articles (stub_libs results_page []) (PStr ''q'') PNone (PInt (- 1)) of
         Inl e \<Rightarrow> 0 | Inr articles \<Rightarrow> length articles) = 4"
  by (simp add: model_defs page_defs)

text \<open>
  C3, amended. For a page fetched with status 200 and an integer \<open>limit \<ge> 0\<close>, the
  summaries are those of the first \<open>limit\<close> post-preview containers that have a heading
  (\<open>h3\<close> or \<open>h2\<close>) and a link, in document order, so at most \<open>limit\<close> of them; when
  each of these containers has both, there are exactly \<open>min limit n\<close> summaries for
  \<open>n\<close> containers (three for five containers and \<open>limit = 3\<close>); and a page with no
  container returns the JSON text of the empty list.
\<close>

theorem search_takes_first_limit:
  assumes "session_get L ''https://medium.com/search/posts''
             ([(''q'', query)] @ (if truthy tag then [(''tag'', tag)] else [])) = Inr resp"
      and "status resp = 200" and "body resp = Inr html" and "0 \<le> limit"
      and "elements = article_elements (html_parser L html)"
  shows "\<exists>articles.
           search_articles L query tag (PInt limit) = Inr articles
           \<and> articles = List.map_filter parse_search_result (take (nat limit) elements)
           \<and> length articles \<le> nat limit
           \<and> (list_all (\<lambda>e. (find_first ''h3'' [] e \<noteq> None \<or> find_first ''h2'' [] e \<noteq> None)
                              \<and> find_first ''a'' [] e \<noteq> None) (take (nat limit) elements)
                \<longrightarrow> length articles = min (nat limit) (length elements))
           \<and> (elements = [] \<longrightarrow>
                search_medium_articles L query tag (PInt limit) =
                  Inr [TextContent ''text'' (json_dumps L (JArray []))])"
proof -
  let ?as = "List.map_filter parse_search_result (take (nat limit) elements)"
  have run: "search_articles L query tag (PInt limit) = Inr ?as"
    using search_articles_ok [OF assms(1-3), of limit] assms(4,5)
    by (simp add: slice_int_def)
  have le: "length ?as \<le> nat limit"
    using length_map_filter_le [of parse_search_result "take (nat limit) elements"]
    by simp
  have full: "length ?as = min (nat limit) (length elements)"
    if "list_all (\<lambda>e. (find_first ''h3'' [] e \<noteq> None \<or> find_first ''h2'' [] e \<noteq> None)
                       \<and> find_first ''a'' [] e \<noteq> None) (take (nat limit) elements)"
  proof -
    from that have "list_all (\<lambda>e. parse_search_result e \<noteq> None) (take (nat limit) elements)"
      by (simp only: parse_search_result_defined)
    then have "length ?as = length (take (nat limit) elements)"
      by (rule length_map_filter_all)
    then show ?thesis by (simp add: min.commute)
  qed
  have none: "search_medium_articles L query tag (PInt limit) =
                Inr [TextContent ''text'' (json_dumps L (JArray []))]"
    if "elements = []"
    using run that by (simp add: search_medium_articles_def)
  show ?thesis using run le full none by simp
qed

theorem search_takes_first_limit_witness:
  "search_articles (stub_libs results_page []) (PStr ''q'') PNone (PInt 3) =
     Inr [\<lparr>summary_title = ''A'', summary_url = ''https://medium.com/a'',
            summary_author = ''Unknown'', summary_snippet = ''A''\<rparr>,
          \<lparr>summary_title = ''B'', summary_url = ''https://medium.com/b'',
            summary_author = ''Unknown'', summary_snippet = ''B''\<rparr>,
          \<lparr>summary_title = ''C'', summary_url = ''https://medium.com/c'',
            summary_author = ''Unknown'', summary_snippet = ''C''\<rparr>]
   \<and> length (article_elements results_page) = 5"
proof -
  let ?L = "stub_libs results_page []"
  have get: "session_get ?L ''https://medium.com/search/posts''
               ([(''q'', PStr ''q'')] @ (if truthy PNone then [(''tag'', PNone)] else [])) =
             Inr \<lparr>status = 200, body = Inr []\<rparr>"
    by (simp add: stub_libs_def)
  have ok: "status \<lparr>status = 200, body = Inr []\<rparr> = 200" by simp
  have bd: "body \<lparr>status = 200, body = (Inr [] :: exn + string)\<rparr> = Inr []" by simp
  have lim: "(0::int) \<le> 3" by simp
  have els: "article_elements results_page = article_elements (html_parser ?L [])"
    by (simp add: stub_libs_def)
  show ?thesis
    using search_takes_first_limit [OF get ok bd lim els]
    by (simp add: model_defs page_defs)
qed

text \<open>
  C4, as the claim words it, fails: a link to another site is returned as it is.
\<close>

theorem summary_url_counterexample:
  "search_articles (stub_libs external_results_page []) (PStr ''q'') PNone (PInt 10) =
     Inr [\<lparr>summary_title = ''A'', summary_url = ''https://example.com/a'',
            summary_author = ''Unknown'', summary_snippet = ''A''\<rparr>]
   \<and> \<not> str_startswith ''https://example.com/a'' ''https://medium.com''"
  by (simp add: model_defs page_defs)

text \<open>
  C4, amended. The \<open>url\<close> of a summary is the \<open>href\<close> of the first link of its
  container (the empty string when the link has none), with the origin
  \<open>https://medium.com\<close> put in front when it starts with \<open>/\<close>, and unchanged otherwise:
  the \<open>url\<close> of a site-relative link starts with the origin.
\<close>

theorem summary_url_rewrite:
  assumes "search_articles L query tag limit = Inr articles" and "a \<in> set articles"
  shows "\<exists>html element link href.
           element \<in> set (article_elements (html_parser L html))
           \<and> parse_search_result element = Some a
           \<and> find_first ''a'' [] element = Some link
           \<and> href = (case tag_get link ''href'' of Some h \<Rightarrow> h | None \<Rightarrow> [])
           \<and> summary_url a =
               (if str_startswith href ''/'' then ''https://medium.com'' @ href else href)
           \<and> (if str_startswith href ''/''
               then str_startswith (summary_url a) ''https://medium.com''
               else summary_url a = href)"
proof -
  obtain html e where e: "e \<in> set (article_elements (html_parser L html))"
      "parse_search_result e = Some a"
    using search_articles_from_elements [OF assms] by blast
  obtain link where l: "find_first ''a'' [] e = Some link"
      "summary_url a =
         (let href = (case tag_get link ''href'' of Some h \<Rightarrow> h | None \<Rightarrow> [])
          in if str_startswith href ''/'' then ''https://medium.com'' @ href else href)"
    using parse_search_result_url [OF e(2)] by blast
  show ?thesis
    using e l by (auto simp: Let_def str_startswith_def)
qed

theorem summary_url_rewrite_witness:
  "search_articles (stub_libs results_page []) (PStr ''q'') PNone (PInt 1) =
     Inr [\<lparr>summary_title = ''A'', summary_url = ''https://medium.com/a'',
                   summary_author = ''Unknown'', summary_snippet = ''A''\<rparr>]
   \<and> (\<exists>html element link href.
         element \<in> set (article_elements (html_parser (stub_libs results_page []) html))
         \<and> parse_search_result element =
             Some \<lparr>summary_title = ''A'', summary_url = ''https://medium.com/a'',
                   summary_author = ''Unknown'', summary_snippet = ''A''\<rparr>
         \<and> find_first ''a'' [] element = Some link
         \<and> href = (case tag_get link ''href'' of Some h \<Rightarrow> h | None \<Rightarrow> [])
         \<and> summary_url \<lparr>summary_title = ''A'', summary_url = ''https://medium.com/a'',
                   summary_author = ''Unknown'', summary_snippet = ''A''\<rparr> =
             (if str_startswith href ''/'' then ''https://medium.com'' @ href else href)
         \<and> (if str_startswith href ''/''
             then str_startswith (summary_url \<lparr>summary_title = ''A'', summary_url = ''https://medium.com/a'',
                   summary_author = ''Unknown'', summary_snippet = ''A''\<rparr>) ''https://medium.com''
             else summary_url \<lparr>summary_title = ''A'', summary_url = ''https://medium.com/a'',
                   summary_author = ''Unknown'', summary_snippet = ''A''\<rparr> = href))
   \<and> str_startswith ''https://medium.com/a'' ''https://medium.com''"
proof -
  let ?a = "\<lparr>summary_title = ''A'', summary_url = ''https://medium.com/a'',
                   summary_author = ''Unknown'', summary_snippet = ''A''\<rparr>"
  have run: "search_articles (stub_libs results_page []) (PStr ''q'') PNone (PInt 1) = Inr [?a]"
    by (simp add: model_defs page_defs)
  have mem: "?a \<in> set [?a]" by simp
  have starts: "str_startswith ''https://medium.com/a'' ''https://medium.com''"
    by (simp add: str_startswith_def)
  show ?thesis
    apply (intro conjI)
      apply (rule run)
     apply (rule summary_url_rewrite [OF run mem])
    apply (rule starts)
    done
qed

text \<open>
  C5. The snippet of every summary of a search call is the title when the title has at
  most 100 characters, and the first 100 characters of the title followed by \<open>...\<close>
  otherwise; it has at most 103 characters.
\<close>

theorem snippet_of_title:
  assumes "search_articles L query tag limit = Inr articles" and "a \<in> set articles"
  shows "summary_snippet a =
           (if length (summary_title a) \<le> 100 then summary_title a
            else take 100 (summary_title a) @ ''...'')
         \<and> length (summary_snippet a) \<le> 103"
proof -
  obtain e where e: "parse_search_result e = Some a"
    using search_articles_from_elements [OF assms] by blast
  have s: "summary_snippet a =
           (if length (summary_title a) \<le> 100 then summary_title a
            else take 100 (summary_title a) @ ''...'')"
    by (rule parse_search_result_snippet [OF e])
  have "length (summary_snippet a) \<le> 103"
    by (subst s) simp
  with s show ?thesis by simp
qed

theorem snippet_of_title_witness:
  "search_articles (stub_libs long_title_page []) (PStr ''q'') PNone (PInt 10) =
     Inr [\<lparr>summary_title = replicate 101 (CHR ''x''), summary_url = ''https://medium.com/long'',
            summary_author = ''Unknown'',
            summary_snippet = replicate 100 (CHR ''x'') @ ''...''\<rparr>]
   \<and> length (replicate 100 (CHR ''x'') @ ''...'') \<le> 103"
proof -
  let ?t = "replicate 101 (CHR ''x'')"
  let ?a = "\<lparr>summary_title = ?t, summary_url = ''https://medium.com/long'',
             summary_author = ''Unknown'',
             summary_snippet = (if length ?t > 100 then take 100 ?t @ ''...'' else ?t)\<rparr>"
  have x: "\<not> isspace (CHR ''x'')" by (simp add: isspace_def)
  have strip: "str_strip ?t = ?t"
    using x by (simp add: str_strip_def dropWhile_eq_Nil_conv cong: dropWhile_cong)
  have run: "search_articles (stub_libs long_title_page []) (PStr ''q'') PNone (PInt 10) =
               Inr [?a]"
    using strip
    by (simp add: search_articles_def article_elements_def parse_search_result_def
          find_first_def find_all_def str_startswith_def slice_int_def Let_def page_defs)
  have mem: "?a \<in> set [?a]" by simp
  show ?thesis
    using snippet_of_title [OF run mem] run by simp
qed

section \<open>The info operation\<close>

text \<open>
  C6. The word count of an info call is the number of whitespace-delimited tokens of the
  page's flattened text, \<open>token_count\<close>; it is what the record's \<open>word_count\<close> holds,
  it is not negative, and it is 0 for a document without text, in particular for a
  document without nodes.
\<close>

theorem word_count_is_token_count:
  "estimate_word_count L html = token_count (get_text (html_parser L html))
   \<and> map_of (article_info L url html) ''word_count'' =
       Some (JInt (int (token_count (get_text (html_parser L html)))))
   \<and> 0 \<le> int (estimate_word_count L html)
   \<and> (get_text (html_parser L html) = [] \<longrightarrow> estimate_word_count L html = 0)
   \<and> (html_parser L html = Tag name attrs [] \<longrightarrow> estimate_word_count L html = 0)"
proof -
  have count: "estimate_word_count L html = token_count (get_text (html_parser L html))"
    by (simp add: estimate_word_count_def length_str_split)
  have field: "map_of (article_info L url html) ''word_count'' =
                 Some (JInt (int (estimate_word_count L html)))"
    by (simp add: article_info_def Let_def)
  have zero: "token_count [] = 0"
    by (simp add: token_count_def)
  show ?thesis
    using field zero by (auto simp: count)
qed

theorem word_count_is_token_count_witness:
  "get_text (html_parser (stub_libs empty_page []) []) = []
   \<and> estimate_word_count (stub_libs empty_page []) [] = 0
   \<and> map_of (article_info (stub_libs empty_page []) (PStr ''u'') []) ''word_count'' =
       Some (JInt 0)"
proof -
  have flat: "get_text (html_parser (stub_libs empty_page []) []) = []"
    by (simp add: page_defs)
  have doc: "html_parser (stub_libs empty_page []) [] = Tag ''[document]'' [] []"
    by (simp add: page_defs)
  have zero: "token_count [] = 0"
    by (simp add: token_count_def)
  show ?thesis
    using word_count_is_token_count
            [of "stub_libs empty_page []" "[]" "PStr ''u''" "''[document]''" "[]"] flat doc zero
    by simp
qed

text \<open>
  C7. An info call on a fetched page does not raise: it returns the record as one text
  segment. A missing \<open>h1\<close>, author link or reading-time span gives \<open>Unknown\<close> for its
  field; a missing \<open>time\<close> element gives \<open>null\<close> as publish date, and the other fields
  are what they are with a \<open>time\<close> element: title, author and reading time from their
  nodes, the URL of the request and the word count.
\<close>

theorem info_missing_fields:
  assumes "httpx_get L url = Inr html"
      and "soup = html_parser L html"
      and "info = article_info L url html"
  shows "get_medium_article_info L url = Inr [TextContent ''text'' (json_dumps L (JObject info))]
     \<and> map fst info =
         [''title'', ''author'', ''reading_time'', ''publish_date'', ''url'', ''word_count'']
     \<and> (find_first ''h1'' [] soup = None \<longrightarrow>
          map_of info ''title'' = Some (JString ''Unknown''))
     \<and> (find_first ''a'' [(''data-testid'', ''authorName'')] soup = None \<longrightarrow>
          map_of info ''author'' = Some (JString ''Unknown''))
     \<and> (find_first ''span'' [(''data-testid'', ''readingTime'')] soup = None \<longrightarrow>
          map_of info ''reading_time'' = Some (JString ''Unknown''))
     \<and> (find_first ''time'' [] soup = None \<longrightarrow>
          map_of info ''publish_date'' = Some JNull
          \<and> map_of info ''title'' =
              Some (JString (case find_first ''h1'' [] soup of
                               Some t \<Rightarrow> str_strip (get_text t) | None \<Rightarrow> ''Unknown''))
          \<and> map_of info ''author'' =
              Some (JString (case find_first ''a'' [(''data-testid'', ''authorName'')] soup of
                               Some a \<Rightarrow> str_strip (get_text a) | None \<Rightarrow> ''Unknown''))
          \<and> map_of info ''reading_time'' =
              Some (JString (case find_first ''span'' [(''data-testid'', ''readingTime'')] soup of
                               Some r \<Rightarrow> str_strip (get_text r) | None \<Rightarrow> ''Unknown''))
          \<and> map_of info ''url'' = Some (json_of url)
          \<and> map_of info ''word_count'' = Some (JInt (int (estimate_word_count L html))))"
  using assms
  by (simp add: get_medium_article_info_def article_info_def Let_def)

theorem info_missing_fields_witness:
  "get_medium_article_info (stub_libs plain_page []) (PStr ''https://medium.com/p'') =
     Inr [TextContent ''text''
            (json_dumps (stub_libs plain_page [])
               (JObject (article_info (stub_libs plain_page []) (PStr ''https://medium.com/p'') [])))]
   \<and> article_info (stub_libs plain_page []) (PStr ''https://medium.com/p'') [] =
       [(''title'', JString ''Unknown''), (''author'', JString ''Unknown''),
        (''reading_time'', JString ''Unknown''), (''publish_date'', JNull),
        (''url'', JString ''https://medium.com/p''), (''word_count'', JInt 2)]
   \<and> article_info (stub_libs undated_page []) (PStr ''https://medium.com/p'') [] =
       [(''title'', JString ''My Post''), (''author'', JString ''Ann''),
        (''reading_time'', JString ''3 min read''), (''publish_date'', JNull),
        (''url'', JString ''https://medium.com/p''), (''word_count'', JInt 6)]"
proof -
  let ?L = "stub_libs plain_page []"
  have fetch: "httpx_get ?L (PStr ''https://medium.com/p'') = Inr []"
    by (simp add: stub_libs_def)
  have plain: "article_info ?L (PStr ''https://medium.com/p'') [] =
       [(''title'', JString ''Unknown''), (''author'', JString ''Unknown''),
        (''reading_time'', JString ''Unknown''), (''publish_date'', JNull),
        (''url'', JString ''https://medium.com/p''), (''word_count'', JInt 2)]"
    by (simp add: model_defs page_defs)
  have undated: "article_info (stub_libs undated_page []) (PStr ''https://medium.com/p'') [] =
       [(''title'', JString ''My Post''), (''author'', JString ''Ann''),
        (''reading_time'', JString ''3 min read''), (''publish_date'', JNull),
        (''url'', JString ''https://medium.com/p''), (''word_count'', JInt 6)]"
    by (simp add: model_defs page_defs)
  show ?thesis
    using info_missing_fields [OF fetch refl refl] plain undated by simp
qed

section \<open>The convert operation: flags and the missing title\<close>

text \<open>
  C8. The output of a convert call does not depend on \<open>include_images\<close> and
  \<open>include_code\<close>: two calls that differ in these flags only return the same, at the
  handler and through \<open>call_tool\<close>, where leaving the flags out changes nothing either.
\<close>

theorem convert_ignores_flags:
  "convert_medium_to_markdown L url include_images include_code =
     convert_medium_to_markdown L url include_images' include_code'
   \<and> call_tool L ''convert_medium_to_markdown''
        (Some [(''url'', url), (''include_images'', include_images),
               (''include_code'', include_code)]) =
     call_tool L ''convert_medium_to_markdown''
        (Some [(''url'', url), (''include_images'', include_images'),
               (''include_code'', include_code')])
   \<and> call_tool L ''convert_medium_to_markdown''
        (Some [(''url'', url), (''include_images'', include_images),
               (''include_code'', include_code)]) =
     call_tool L ''convert_medium_to_markdown'' (Some [(''url'', url)])"
  by (simp add: convert_medium_to_markdown_def call_tool_def invoke_handler_def
        bind_kwargs_def kwarg_def)

text \<open>
  C10. A convert call on a fetched page with an article container and no \<open>h1\<close>
  succeeds, and its output starts with the line \<open># Untitled\<close>; the info record of the
  same page has the title \<open>Unknown\<close>.
\<close>

theorem convert_untitled:
  assumes "httpx_get L url = Inr html"
      and "find_first ''article'' [] (html_parser L html) = Some article_content"
      and "find_first ''h1'' [] (html_parser L html) = None"
  shows "convert_medium_to_markdown L url include_images include_code =
           Inr [TextContent ''text''
                  (''# Untitled'' @ [NL, NL]
                   @ ''**Source:** '' @ py_str url @ [NL, NL]
                   @ ''---'' @ [NL, NL]
                   @ md_convert L (node_str L article_content))]
         \<and> map_of (article_info L url html) ''title'' = Some (JString ''Unknown'')"
  using assms by (simp add: convert_medium_to_markdown_def article_info_def Let_def)

theorem convert_untitled_witness:
  "convert_medium_to_markdown (stub_libs untitled_page ''hello world'')
     (PStr ''https://medium.com/p'') (PBool True) (PBool True) =
   Inr [TextContent ''text''
          (''# Untitled'' @ [NL, NL] @ ''**Source:** https://medium.com/p'' @ [NL, NL]
           @ ''---'' @ [NL, NL] @ ''hello world'')]
   \<and> map_of (article_info (stub_libs untitled_page ''hello world'')
                (PStr ''https://medium.com/p'') []) ''title'' = Some (JString ''Unknown'')"
proof -
  let ?L = "stub_libs untitled_page ''hello world''"
  have fetch: "httpx_get ?L (PStr ''https://medium.com/p'') = Inr []"
    by (simp add: stub_libs_def)
  have art: "find_first ''article'' [] (html_parser ?L []) =
               Some (Tag ''article'' [] [Tag ''p'' [] [NavigableString ''hello world'']])"
    by (simp add: page_defs find_first_def find_all_def)
  have h1: "find_first ''h1'' [] (html_parser ?L []) = None"
    by (simp add: page_defs find_first_def find_all_def)
  show ?thesis
    using convert_untitled [OF fetch art h1, of "PBool True" "PBool True"]
    by (simp add: stub_libs_def)
qed

section \<open>The command line\<close>

lemma main_port_nonzero:
  "port args = Some p \<Longrightarrow> p \<noteq> 0 \<Longrightarrow>
   stderr_lines (main args) = [''HTTP mode not yet implemented'']
   \<and> ending (main args) = SystemExit 1"
  by (simp add: main_def)

lemma main_no_port:
  "port args = None \<Longrightarrow> ending (main args) = ServerRun"
  by (simp add: main_def)

text \<open>
  C9. The claim holds for every port but 0: \<open>--port 0\<close> selects the network-port
  mode, the namespace has \<open>port = 0\<close>, which the test \<open>if args.port\<close> takes for no
  port, and \<open>main\<close> runs the stdio server without a message.
\<close>

theorem main_port_zero_runs_server:
  "main \<lparr>stdio = False, port = Some 0, verbose = False\<rparr> =
     \<lparr>debug_logging = False, stderr_lines = [], ending = ServerRun\<rparr>"
  by (simp add: main_def)

end
